theory Spec2Isabelle
  imports Complex_Main
begin

section \<open>JavaScript numbers and string-to-number coercion\<close>

text \<open>
  The route handlers coerce query and path strings with unary \<open>+\<close> and \<open>Number(...)\<close> and
  then compute with the results.  A JavaScript number is modelled as \<open>NaN\<close>, one of the two
  infinities, or a finite value.  Finite values are kept as exact rationals: rounding to
  binary64, overflow to an infinity and the sign of zero are outside the model.
\<close>

datatype jsnum = NaN | NegInf | Fin rat | PosInf

fun js_neg :: "jsnum \<Rightarrow> jsnum" where
  "js_neg NaN = NaN"
| "js_neg NegInf = PosInf"
| "js_neg PosInf = NegInf"
| "js_neg (Fin a) = Fin (- a)"

text \<open>\<open>Math.max(a, b)\<close>: \<open>NaN\<close> as soon as one argument is \<open>NaN\<close>.\<close>

fun js_max :: "jsnum \<Rightarrow> jsnum \<Rightarrow> jsnum" where
  "js_max NaN y = NaN"
| "js_max x NaN = NaN"
| "js_max PosInf y = PosInf"
| "js_max x PosInf = PosInf"
| "js_max NegInf y = y"
| "js_max x NegInf = x"
| "js_max (Fin a) (Fin b) = Fin (max a b)"

text \<open>The comparison \<open>a <= b\<close>, false whenever \<open>NaN\<close> takes part.\<close>

fun js_le :: "jsnum \<Rightarrow> jsnum \<Rightarrow> bool" where
  "js_le NaN y = False"
| "js_le x NaN = False"
| "js_le NegInf y = True"
| "js_le x PosInf = True"
| "js_le PosInf y = False"
| "js_le x NegInf = False"
| "js_le (Fin a) (Fin b) = (a \<le> b)"

fun js_add :: "jsnum \<Rightarrow> jsnum \<Rightarrow> jsnum" where
  "js_add NaN y = NaN"
| "js_add x NaN = NaN"
| "js_add PosInf NegInf = NaN"
| "js_add NegInf PosInf = NaN"
| "js_add PosInf y = PosInf"
| "js_add x PosInf = PosInf"
| "js_add NegInf y = NegInf"
| "js_add x NegInf = NegInf"
| "js_add (Fin a) (Fin b) = Fin (a + b)"

definition js_sub :: "jsnum \<Rightarrow> jsnum \<Rightarrow> jsnum" where
  "js_sub x y = js_add x (js_neg y)"

text \<open>The sign of a number that is not \<open>NaN\<close>: \<open>-1\<close>, \<open>0\<close> or \<open>1\<close>.\<close>

fun js_sign :: "jsnum \<Rightarrow> int" where
  "js_sign NaN = 0"
| "js_sign NegInf = - 1"
| "js_sign PosInf = 1"
| "js_sign (Fin a) = (if a < 0 then - 1 else if a = 0 then 0 else 1)"

definition signed_inf :: "int \<Rightarrow> jsnum" where
  "signed_inf s = (if s < 0 then NegInf else PosInf)"

fun js_mul :: "jsnum \<Rightarrow> jsnum \<Rightarrow> jsnum" where
  "js_mul NaN y = NaN"
| "js_mul x NaN = NaN"
| "js_mul (Fin a) (Fin b) = Fin (a * b)"
| "js_mul x y =
     (if js_sign x = 0 \<or> js_sign y = 0 then NaN else signed_inf (js_sign x * js_sign y))"

fun js_div :: "jsnum \<Rightarrow> jsnum \<Rightarrow> jsnum" where
  "js_div NaN y = NaN"
| "js_div x NaN = NaN"
| "js_div (Fin a) (Fin b) =
     (if b = 0 then (if a = 0 then NaN else signed_inf (js_sign (Fin a))) else Fin (a / b))"
| "js_div (Fin a) y = Fin 0"
| "js_div x (Fin b) = signed_inf (js_sign x * (if b < 0 then - 1 else 1))"
| "js_div x y = NaN"

text \<open>\<open>Math.ceil\<close>.\<close>

fun js_ceil :: "jsnum \<Rightarrow> jsnum" where
  "js_ceil (Fin a) = Fin (of_int \<lceil>a\<rceil>)"
| "js_ceil x = x"

text \<open>\<open>Number.isFinite\<close>.\<close>

fun isFinite :: "jsnum \<Rightarrow> bool" where
  "isFinite (Fin a) = True"
| "isFinite x = False"

subsection \<open>\<open>StringToNumber\<close>\<close>

text \<open>
  The conversion both \<open>+s\<close> and \<open>Number(s)\<close> apply to a string, after the grammar of
  \<open>StringNumericLiteral\<close>: surrounding white space is dropped, the empty string is \<open>0\<close>,
  then either an unsigned \<open>0x\<close>/\<open>0o\<close>/\<open>0b\<close> integer or an optionally signed decimal literal
  (\<open>Infinity\<close>, digits with optional fraction and exponent); anything else is \<open>NaN\<close>.
  Strings are lists of 8-bit characters, so the white space recognised is the one below
  U+0100.
\<close>

definition is_ws :: "char \<Rightarrow> bool" where
  "is_ws c \<longleftrightarrow> c \<in> set [CHR 0x09, CHR 0x0A, CHR 0x0B, CHR 0x0C, CHR 0x0D, CHR 0x20, CHR 0xA0]"

definition trim :: "string \<Rightarrow> string" where
  "trim s = rev (dropWhile is_ws (rev (dropWhile is_ws s)))"

fun index_of :: "char \<Rightarrow> string \<Rightarrow> nat option" where
  "index_of c [] = None"
| "index_of c (d # ds) = (if c = d then Some 0 else map_option Suc (index_of c ds))"

definition digit_val :: "nat \<Rightarrow> char \<Rightarrow> nat option" where
  "digit_val base c =
     (case index_of c ''0123456789abcdef'' of
        Some d \<Rightarrow> if d < base then Some d else None
      | None \<Rightarrow>
          (case index_of c ''0123456789ABCDEF'' of
             Some d \<Rightarrow> if d < base then Some d else None
           | None \<Rightarrow> None))"

definition is_digit :: "char \<Rightarrow> bool" where
  "is_digit c \<longleftrightarrow> digit_val 10 c \<noteq> None"

text \<open>The value of a digit string in a base; \<open>None\<close> when a character is no digit.\<close>

fun digits_value :: "nat \<Rightarrow> nat \<Rightarrow> string \<Rightarrow> nat option" where
  "digits_value base acc [] = Some acc"
| "digits_value base acc (c # cs) =
     (case digit_val base c of
        None \<Rightarrow> None
      | Some d \<Rightarrow> digits_value base (acc * base + d) cs)"

definition DecimalDigits :: "string \<Rightarrow> nat option" where
  "DecimalDigits s = (if s = [] then None else digits_value 10 0 s)"

text \<open>\<open>ExponentPart\<close>, optional: the empty rest is exponent \<open>0\<close>.\<close>

definition ExponentPart :: "string \<Rightarrow> int option" where
  "ExponentPart s =
     (case s of
        [] \<Rightarrow> Some 0
      | c # cs \<Rightarrow>
          if c = CHR ''e'' \<or> c = CHR ''E'' then
            (case cs of
               [] \<Rightarrow> None
             | d # ds \<Rightarrow>
                 if d = CHR ''+'' then map_option int (DecimalDigits ds)
                 else if d = CHR ''-'' then map_option (\<lambda>n. - int n) (DecimalDigits ds)
                 else map_option int (DecimalDigits cs))
          else None)"

definition scale10 :: "rat \<Rightarrow> int \<Rightarrow> rat" where
  "scale10 m e = (if 0 \<le> e then m * 10 ^ nat e else m / 10 ^ nat (- e))"

definition StrUnsignedDecimalLiteral :: "string \<Rightarrow> jsnum" where
  "StrUnsignedDecimalLiteral s =
     (if s = ''Infinity'' then PosInf
      else
        let ip = takeWhile is_digit s;
            r1 = dropWhile is_digit s;
            fp = (case r1 of [] \<Rightarrow> [] | c # cs \<Rightarrow> if c = CHR ''.'' then takeWhile is_digit cs else []);
            r2 = (case r1 of [] \<Rightarrow> [] | c # cs \<Rightarrow> if c = CHR ''.'' then dropWhile is_digit cs else r1)
        in if ip = [] \<and> fp = [] then NaN
           else
             (case (digits_value 10 0 ip, digits_value 10 0 fp, ExponentPart r2) of
                (Some i, Some f, Some e) \<Rightarrow>
                  Fin (scale10 (of_nat i + of_nat f / 10 ^ length fp) e)
              | _ \<Rightarrow> NaN))"

definition NonDecimalIntegerLiteral :: "nat \<Rightarrow> string \<Rightarrow> jsnum" where
  "NonDecimalIntegerLiteral base ds =
     (if ds = [] then NaN
      else case digits_value base 0 ds of None \<Rightarrow> NaN | Some n \<Rightarrow> Fin (of_nat n))"

definition StrNumericLiteral :: "string \<Rightarrow> jsnum" where
  "StrNumericLiteral s =
     (case s of
        [] \<Rightarrow> Fin 0
      | c # cs \<Rightarrow>
          if c = CHR ''+'' then StrUnsignedDecimalLiteral cs
          else if c = CHR ''-'' then js_neg (StrUnsignedDecimalLiteral cs)
          else if c = CHR ''0'' \<and> cs \<noteq> [] \<and> hd cs \<in> set ''xX'' then NonDecimalIntegerLiteral 16 (tl cs)
          else if c = CHR ''0'' \<and> cs \<noteq> [] \<and> hd cs \<in> set ''oO'' then NonDecimalIntegerLiteral 8 (tl cs)
          else if c = CHR ''0'' \<and> cs \<noteq> [] \<and> hd cs \<in> set ''bB'' then NonDecimalIntegerLiteral 2 (tl cs)
          else StrUnsignedDecimalLiteral s)"

definition StringToNumber :: "string \<Rightarrow> jsnum" where
  "StringToNumber s = StrNumericLiteral (trim s)"

section \<open>Pagination parameters\<close>

text \<open>
  Every list handler starts with
  \<^verbatim>\<open>const { ..., page = 1, limit = 10 } = req.query;\<close>
  \<^verbatim>\<open>const currentPage = Math.max(1, +page);\<close>
  \<^verbatim>\<open>const limitPerPage = Math.max(1, +limit);\<close>
  \<^verbatim>\<open>const offset = (currentPage - 1) * limitPerPage;\<close>
  A query parameter is an optional string: \<open>None\<close> when the parameter is absent, in which
  case the destructuring default (a number) applies.  Array- and object-valued parameters
  of the query parser are not modelled.
\<close>

definition currentPage :: "string option \<Rightarrow> jsnum" where
  "currentPage page = js_max (Fin 1) (case page of None \<Rightarrow> Fin 1 | Some s \<Rightarrow> StringToNumber s)"

definition limitPerPage :: "string option \<Rightarrow> jsnum" where
  "limitPerPage limit = js_max (Fin 1) (case limit of None \<Rightarrow> Fin 10 | Some s \<Rightarrow> StringToNumber s)"

definition offset :: "string option \<Rightarrow> string option \<Rightarrow> jsnum" where
  "offset page limit = js_mul (js_sub (currentPage page) (Fin 1)) (limitPerPage limit)"

section \<open>Tables\<close>

text \<open>
  The \<open>user\<close> table as \<^verbatim>\<open>src/db/schema/auth.ts\<close> declares it; timestamps are integers
  (a larger value is a later instant).
\<close>

datatype role = Student | Teacher | Admin

record user_row =
  user_id :: string
  user_name :: string
  user_email :: string
  user_emailVerified :: bool
  user_image :: "string option"
  user_role :: role
  user_imageCldPubId :: "string option"
  user_createdAt :: int
  user_updatedAt :: int

text \<open>
  Modelled from the spec: the schema file of the application tables (departments,
  subjects, classes, enrollments) is not among the sources.  The columns are the ones the
  data model of the specification lists and the route handlers read; the banner metadata,
  the schedules and \<open>updatedAt\<close> of these tables take part in no query condition and are
  left out.  Numeric primary and foreign keys are integers.
\<close>

record department_row =
  dept_id :: int
  dept_code :: string
  dept_name :: string
  dept_description :: "string option"
  dept_createdAt :: int

record subject_row =
  subj_id :: int
  subj_departmentId :: int
  subj_name :: string
  subj_code :: string
  subj_description :: "string option"
  subj_createdAt :: int

record class_row =
  class_id :: int
  class_subjectId :: int
  class_teacherId :: string
  class_name :: string
  class_inviteCode :: string
  class_capacity :: int
  class_status :: string
  class_createdAt :: int

record enrollment_row =
  enr_id :: int
  enr_studentId :: string
  enr_classId :: int
  enr_createdAt :: int

text \<open>The database a request reads: one snapshot of the five tables.\<close>

record db =
  users :: "user_row list"
  departments :: "department_row list"
  subjects :: "subject_row list"
  classes :: "class_row list"
  enrollments :: "enrollment_row list"

section \<open>Query building blocks\<close>

subsection \<open>Filter conditions\<close>

text \<open>
  The conditions the handlers build with \<open>ilike\<close>, \<open>eq\<close>, \<open>or\<close> and \<open>and\<close>, kept as
  syntax so that the pattern handed to \<open>ILIKE\<close> can be read off.
\<close>

datatype column =
    UserName | UserEmail | UserRole
  | DepartmentsName | DepartmentsCode
  | SubjectsName | SubjectsCode
  | ClassesName | ClassesInviteCode

datatype cond =
    Ilike column string
  | Eq column string
  | Or cond cond
  | And "cond list"

text \<open>\<open>if (search)\<close>: an absent parameter and the empty string are falsy.\<close>

definition truthy :: "string option \<Rightarrow> bool" where
  "truthy q = (case q of None \<Rightarrow> False | Some s \<Rightarrow> s \<noteq> [])"

text \<open>The template literal \<^verbatim>\<open>`%${search}%`\<close>.\<close>

definition contains_pattern :: "string \<Rightarrow> string" where
  "contains_pattern s = ''%'' @ s @ ''%''"

text \<open>
  \<^verbatim>\<open>filterConditions.length > 0 ? and(...filterConditions) : undefined\<close>
\<close>

definition whereClause :: "cond list \<Rightarrow> cond option" where
  "whereClause filterConditions =
     (if length filterConditions > 0 then Some (And filterConditions) else None)"

subsection \<open>Evaluating a condition on a row\<close>

text \<open>
  \<open>LIKE\<close> as the database matches it: \<open>%\<close> stands for any sequence, \<open>_\<close> for any one
  character, a backslash makes the next pattern character literal.  A pattern that ends in
  a lone backslash matches nothing here.  The first argument is the pattern.
\<close>

fun like :: "string \<Rightarrow> string \<Rightarrow> bool" where
  "like [] s = (s = [])"
| "like (p # ps) [] = (p = CHR ''%'' \<and> like ps [])"
| "like (p # ps) (c # cs) =
     (if p = CHR ''%'' then like ps (c # cs) \<or> like (p # ps) cs
      else if p = CHR ''_'' then like ps cs
      else if p = CHR 0x5C then (case ps of [] \<Rightarrow> False | q # qs \<Rightarrow> q = c \<and> like qs cs)
      else p = c \<and> like ps cs)"

definition lower :: "char \<Rightarrow> char" where
  "lower c =
     (case index_of c ''ABCDEFGHIJKLMNOPQRSTUVWXYZ'' of
        None \<Rightarrow> c
      | Some i \<Rightarrow> ''abcdefghijklmnopqrstuvwxyz'' ! i)"

text \<open>\<open>value ILIKE pattern\<close>: \<open>LIKE\<close> without regard to the case of ASCII letters.\<close>

definition ilike :: "string \<Rightarrow> string \<Rightarrow> bool" where
  "ilike v p = like (map lower p) (map lower v)"

text \<open>
  SQL's three truth values: \<open>None\<close> is \<open>NULL\<close>.  A row read from a left join has \<open>NULL\<close> in
  the columns of a table that matched nothing, and a comparison with \<open>NULL\<close> is \<open>NULL\<close>.
\<close>

fun sql_or :: "bool option \<Rightarrow> bool option \<Rightarrow> bool option" where
  "sql_or (Some True) y = Some True"
| "sql_or x (Some True) = Some True"
| "sql_or (Some False) (Some False) = Some False"
| "sql_or x y = None"

fun sql_and :: "bool option \<Rightarrow> bool option \<Rightarrow> bool option" where
  "sql_and (Some False) y = Some False"
| "sql_and x (Some False) = Some False"
| "sql_and (Some True) (Some True) = Some True"
| "sql_and x y = None"

fun eval_cond :: "(column \<rightharpoonup> string) \<Rightarrow> cond \<Rightarrow> bool option" where
  "eval_cond env (Ilike col p) = map_option (\<lambda>v. ilike v p) (env col)"
| "eval_cond env (Eq col x) = map_option (\<lambda>v. v = x) (env col)"
| "eval_cond env (Or a b) = sql_or (eval_cond env a) (eval_cond env b)"
| "eval_cond env (And cs) = foldr sql_and (map (eval_cond env) cs) (Some True)"

text \<open>\<open>.where(whereClause)\<close>: no restriction when the clause is \<open>undefined\<close>.\<close>

definition where_holds :: "cond option \<Rightarrow> (column \<rightharpoonup> string) \<Rightarrow> bool" where
  "where_holds w env = (case w of None \<Rightarrow> True | Some c \<Rightarrow> eval_cond env c = Some True)"

subsection \<open>Columns of the tables as the conditions see them\<close>

definition role_name :: "role \<Rightarrow> string" where
  "role_name r = (case r of Student \<Rightarrow> ''student'' | Teacher \<Rightarrow> ''teacher'' | Admin \<Rightarrow> ''admin'')"

definition user_cols :: "user_row \<Rightarrow> (column \<rightharpoonup> string)" where
  "user_cols u =
     [UserName \<mapsto> user_name u, UserEmail \<mapsto> user_email u, UserRole \<mapsto> role_name (user_role u)]"

definition department_cols :: "department_row \<Rightarrow> (column \<rightharpoonup> string)" where
  "department_cols d = [DepartmentsName \<mapsto> dept_name d, DepartmentsCode \<mapsto> dept_code d]"

definition subject_cols :: "subject_row \<Rightarrow> (column \<rightharpoonup> string)" where
  "subject_cols s = [SubjectsName \<mapsto> subj_name s, SubjectsCode \<mapsto> subj_code s]"

definition class_cols :: "class_row \<Rightarrow> (column \<rightharpoonup> string)" where
  "class_cols c = [ClassesName \<mapsto> class_name c, ClassesInviteCode \<mapsto> class_inviteCode c]"

text \<open>The columns of a left-joined table: all \<open>NULL\<close> when the join matched nothing.\<close>

definition nullable :: "('a \<Rightarrow> (column \<rightharpoonup> string)) \<Rightarrow> 'a option \<Rightarrow> (column \<rightharpoonup> string)" where
  "nullable cols r = (case r of None \<Rightarrow> Map.empty | Some x \<Rightarrow> cols x)"

subsection \<open>Joins, grouping, ordering, paging\<close>

text \<open>
  \<open>l.leftJoin(r, on)\<close>: every left row once per matching right row, or once with \<open>None\<close>
  when no right row matches.
\<close>

definition left_join :: "'a list \<Rightarrow> 'b list \<Rightarrow> ('a \<Rightarrow> 'b \<Rightarrow> bool) \<Rightarrow> ('a \<times> 'b option) list" where
  "left_join ls rs on =
     concat (map (\<lambda>l. case filter (on l) rs of
                          [] \<Rightarrow> [(l, None)]
                        | m # ms \<Rightarrow> map (\<lambda>r. (l, Some r)) (m # ms)) ls)"

text \<open>
  \<open>GROUP BY key\<close>: the groups in the order their keys first appear, each as its first row
  and the later rows with the same key.
\<close>

function group_by :: "('a \<Rightarrow> 'k) \<Rightarrow> 'a list \<Rightarrow> ('a \<times> 'a list) list" where
  "group_by key [] = []"
| "group_by key (x # xs) =
     (x, filter (\<lambda>y. key y = key x) xs) # group_by key (filter (\<lambda>y. key y \<noteq> key x) xs)"
  by pat_completeness auto
termination
  by (relation "measure (\<lambda>(key, xs). length xs)") (auto simp: less_Suc_eq_le)

text \<open>
  \<open>ORDER BY createdAt DESC\<close>.  SQL leaves the order of rows with equal keys open; the
  model keeps them in their previous order.
\<close>

definition order_by_desc :: "('a \<Rightarrow> int) \<Rightarrow> 'a list \<Rightarrow> 'a list" where
  "order_by_desc createdAt rows = sort_key (\<lambda>r. - createdAt r) rows"

text \<open>
  \<open>.limit(l).offset(o)\<close>.  \<open>LIMIT\<close> and \<open>OFFSET\<close> count rows: a value that is not a
  non-negative integer makes the query fail in this model (what the query builder and the
  database do with such a value is not part of the sources).
\<close>

datatype db_error = QueryFailed

definition row_count :: "jsnum \<Rightarrow> nat option" where
  "row_count x =
     (case x of
        Fin r \<Rightarrow> if 0 \<le> r \<and> of_int \<lfloor>r\<rfloor> = r then Some (nat \<lfloor>r\<rfloor>) else None
      | _ \<Rightarrow> None)"

definition limit_offset :: "jsnum \<Rightarrow> jsnum \<Rightarrow> 'a list \<Rightarrow> db_error + 'a list" where
  "limit_offset l o' rows =
     (case (row_count l, row_count o') of
        (Some n, Some k) \<Rightarrow> Inr (take n (drop k rows))
      | _ \<Rightarrow> Inl QueryFailed)"

section \<open>Responses\<close>

text \<open>
  \<open>Success payload\<close> is \<^verbatim>\<open>res.status(200).json(payload)\<close>; \<open>Failed code msg\<close> is
  \<^verbatim>\<open>res.status(code).json({ error: msg })\<close>.
\<close>

datatype 'a response = Success 'a | Failed nat string


record pagination =
  pg_page :: jsnum
  pg_limit :: jsnum
  pg_total :: nat
  pg_totalPages :: jsnum

record 'r list_payload =
  data :: "'r list"
  pagination :: pagination

text \<open>
  The tail shared by the four list handlers: run the paged data query and answer with the
  page and the pagination metadata, or with status 500 when a query throws.
  \<^verbatim>\<open>totalPages: Math.ceil(totalCount / limitPerPage)\<close>
\<close>

definition totalPages :: "nat \<Rightarrow> jsnum \<Rightarrow> jsnum" where
  "totalPages totalCount perPage = js_ceil (js_div (Fin (of_nat totalCount)) perPage)"

definition list_response ::
  "string \<Rightarrow> string option \<Rightarrow> string option \<Rightarrow> nat \<Rightarrow> 'r list \<Rightarrow> 'r list_payload response" where
  "list_response failure page limit totalCount rows =
     (case limit_offset (limitPerPage limit) (offset page limit) rows of
        Inl e \<Rightarrow> Failed 500 failure
      | Inr pageRows \<Rightarrow>
          Success \<lparr>data = pageRows,
                   pagination = \<lparr>pg_page = currentPage page,
                                 pg_limit = limitPerPage limit,
                                 pg_total = totalCount,
                                 pg_totalPages = totalPages totalCount (limitPerPage limit)\<rparr>\<rparr>)"

section \<open>List endpoints\<close>

text \<open>
  \<^verbatim>\<open>if (q) { filterConditions.push(mk(q)); }\<close>
\<close>

definition push_if :: "string option \<Rightarrow> (string \<Rightarrow> cond) \<Rightarrow> cond list \<Rightarrow> cond list" where
  "push_if q mk filterConditions =
     (case q of
        None \<Rightarrow> filterConditions
      | Some s \<Rightarrow> if truthy q then filterConditions @ [mk s] else filterConditions)"

subsection \<open>\<open>GET /api/users\<close>\<close>

definition users_filterConditions :: "string option \<Rightarrow> string option \<Rightarrow> cond list" where
  "users_filterConditions search role =
     push_if role (\<lambda>r. Eq UserRole r)
       (push_if search
          (\<lambda>s. Or (Ilike UserName (contains_pattern s)) (Ilike UserEmail (contains_pattern s)))
          [])"

definition users_countResult :: "db \<Rightarrow> cond option \<Rightarrow> nat" where
  "users_countResult db w = length (filter (\<lambda>u. where_holds w (user_cols u)) (users db))"

definition users_select :: "db \<Rightarrow> cond option \<Rightarrow> user_row list" where
  "users_select db w =
     order_by_desc user_createdAt (filter (\<lambda>u. where_holds w (user_cols u)) (users db))"

definition get_users ::
  "db \<Rightarrow> string option \<Rightarrow> string option \<Rightarrow> string option \<Rightarrow> string option
     \<Rightarrow> user_row list_payload response" where
  "get_users db search role page limit =
     (let w = whereClause (users_filterConditions search role)
      in list_response ''Failed to fetch users'' page limit
           (users_countResult db w) (users_select db w))"

subsection \<open>\<open>GET /api/subjects\<close>\<close>

type_synonym subject_with_department = "subject_row \<times> department_row option"

definition subjects_filterConditions :: "string option \<Rightarrow> string option \<Rightarrow> cond list" where
  "subjects_filterConditions search department =
     push_if department (\<lambda>d. Ilike DepartmentsName (contains_pattern d))
       (push_if search
          (\<lambda>s. Or (Ilike SubjectsName (contains_pattern s)) (Ilike SubjectsCode (contains_pattern s)))
          [])"

definition subjects_joined :: "db \<Rightarrow> subject_with_department list" where
  "subjects_joined db =
     left_join (subjects db) (departments db) (\<lambda>s d. subj_departmentId s = dept_id d)"

definition subject_with_department_cols :: "subject_with_department \<Rightarrow> (column \<rightharpoonup> string)" where
  "subject_with_department_cols r = subject_cols (fst r) ++ nullable department_cols (snd r)"

definition subjects_countResult :: "db \<Rightarrow> cond option \<Rightarrow> nat" where
  "subjects_countResult db w =
     length (filter (\<lambda>r. where_holds w (subject_with_department_cols r)) (subjects_joined db))"

definition subjects_select :: "db \<Rightarrow> cond option \<Rightarrow> subject_with_department list" where
  "subjects_select db w =
     order_by_desc (\<lambda>r. subj_createdAt (fst r))
       (filter (\<lambda>r. where_holds w (subject_with_department_cols r)) (subjects_joined db))"

definition get_subjects ::
  "db \<Rightarrow> string option \<Rightarrow> string option \<Rightarrow> string option \<Rightarrow> string option
     \<Rightarrow> subject_with_department list_payload response" where
  "get_subjects db search department page limit =
     (let w = whereClause (subjects_filterConditions search department)
      in list_response ''Failed to fetch subjects'' page limit
           (subjects_countResult db w) (subjects_select db w))"

subsection \<open>\<open>GET /api/departments\<close>\<close>

text \<open>
  The count query reads the \<open>departments\<close> table alone; the data query joins the subjects,
  groups by the department id and counts the subjects of each group
  (\<^verbatim>\<open>count(subjects.id)\<close> counts the rows whose subject is not \<open>NULL\<close>).  A row of the
  answer is the department with its \<open>totalSubjects\<close>.
\<close>

type_synonym department_with_total = "department_row \<times> nat"

definition departments_filterConditions :: "string option \<Rightarrow> cond list" where
  "departments_filterConditions search =
     push_if search
       (\<lambda>s. Or (Ilike DepartmentsName (contains_pattern s))
                (Ilike DepartmentsCode (contains_pattern s)))
       []"

definition departments_countResult :: "db \<Rightarrow> cond option \<Rightarrow> nat" where
  "departments_countResult db w =
     length (filter (\<lambda>d. where_holds w (department_cols d)) (departments db))"

definition departments_joined :: "db \<Rightarrow> (department_row \<times> subject_row option) list" where
  "departments_joined db =
     left_join (departments db) (subjects db) (\<lambda>d s. dept_id d = subj_departmentId s)"

definition department_with_subject_cols ::
  "department_row \<times> subject_row option \<Rightarrow> (column \<rightharpoonup> string)" where
  "department_with_subject_cols r = department_cols (fst r) ++ nullable subject_cols (snd r)"

definition count_not_null :: "'a option list \<Rightarrow> nat" where
  "count_not_null xs = length (filter (\<lambda>x. x \<noteq> None) xs)"

definition departments_select :: "db \<Rightarrow> cond option \<Rightarrow> department_with_total list" where
  "departments_select db w =
     order_by_desc (\<lambda>r. dept_createdAt (fst r))
       (map (\<lambda>(first, others). (fst first, count_not_null (map snd (first # others))))
          (group_by (\<lambda>r. dept_id (fst r))
             (filter (\<lambda>r. where_holds w (department_with_subject_cols r))
                (departments_joined db))))"

definition get_departments ::
  "db \<Rightarrow> string option \<Rightarrow> string option \<Rightarrow> string option
     \<Rightarrow> department_with_total list_payload response" where
  "get_departments db search page limit =
     (let w = whereClause (departments_filterConditions search)
      in list_response ''Failed to fetch departments'' page limit
           (departments_countResult db w) (departments_select db w))"

subsection \<open>\<open>GET /api/classes\<close>\<close>

type_synonym class_with_subject_teacher = "class_row \<times> subject_row option \<times> user_row option"

definition classes_filterConditions ::
  "string option \<Rightarrow> string option \<Rightarrow> string option \<Rightarrow> cond list" where
  "classes_filterConditions search subject teacher =
     push_if teacher (\<lambda>t. Ilike UserName (contains_pattern t))
       (push_if subject (\<lambda>s. Ilike SubjectsName (contains_pattern s))
          (push_if search
             (\<lambda>s. Or (Ilike ClassesName (contains_pattern s))
                      (Ilike ClassesInviteCode (contains_pattern s)))
             []))"

definition classes_joined :: "db \<Rightarrow> class_with_subject_teacher list" where
  "classes_joined db =
     map (\<lambda>((c, s), t). (c, s, t))
       (left_join
          (left_join (classes db) (subjects db) (\<lambda>c s. class_subjectId c = subj_id s))
          (users db)
          (\<lambda>(c, s) u. class_teacherId c = user_id u))"

definition class_with_subject_teacher_cols ::
  "class_with_subject_teacher \<Rightarrow> (column \<rightharpoonup> string)" where
  "class_with_subject_teacher_cols r =
     (case r of (c, s, t) \<Rightarrow> class_cols c ++ nullable subject_cols s ++ nullable user_cols t)"

definition classes_countResult :: "db \<Rightarrow> cond option \<Rightarrow> nat" where
  "classes_countResult db w =
     length (filter (\<lambda>r. where_holds w (class_with_subject_teacher_cols r)) (classes_joined db))"

definition classes_select :: "db \<Rightarrow> cond option \<Rightarrow> class_with_subject_teacher list" where
  "classes_select db w =
     order_by_desc (\<lambda>r. class_createdAt (fst r))
       (filter (\<lambda>r. where_holds w (class_with_subject_teacher_cols r)) (classes_joined db))"

definition get_classes ::
  "db \<Rightarrow> string option \<Rightarrow> string option \<Rightarrow> string option \<Rightarrow> string option \<Rightarrow> string option
     \<Rightarrow> class_with_subject_teacher list_payload response" where
  "get_classes db search subject teacher page limit =
     (let w = whereClause (classes_filterConditions search subject teacher)
      in list_response ''Failed to fetch classes'' page limit
           (classes_countResult db w) (classes_select db w))"

section \<open>Detail endpoints\<close>

text \<open>\<open>eq(column, n)\<close> for an integer column and a JavaScript number.\<close>

definition num_eq :: "int \<Rightarrow> jsnum \<Rightarrow> bool" where
  "num_eq i x \<longleftrightarrow> x = Fin (of_int i)"

subsection \<open>\<open>GET /api/subjects/:id\<close>\<close>



subsection \<open>\<open>GET /api/departments/:id\<close>\<close>

record student_info =
  si_id :: string
  si_name :: string
  si_email :: string
  si_image :: "string option"
  si_role :: role

record department_detail =
  dd_department :: department_row
  dd_subjects :: "(subject_row \<times> nat) list"
  dd_classes :: "class_with_subject_teacher list"
  dd_enrolledStudents :: "student_info list"
  dd_totals_subjects :: nat
  dd_totals_classes :: nat
  dd_totals_enrolledStudents :: nat

text \<open>
  The three queries of \<open>Promise.all\<close>, each on the same snapshot.  A \<open>NULL\<close> subject
  fails the comparison \<open>subjects.departmentId = departmentId\<close>.
\<close>

definition in_department :: "jsnum \<Rightarrow> subject_row option \<Rightarrow> bool" where
  "in_department departmentId s =
     (case s of None \<Rightarrow> False | Some s' \<Rightarrow> num_eq (subj_departmentId s') departmentId)"

definition department_subjectsList :: "db \<Rightarrow> jsnum \<Rightarrow> (subject_row \<times> nat) list" where
  "department_subjectsList db departmentId =
     order_by_desc (\<lambda>r. subj_createdAt (fst r))
       (map (\<lambda>(first, others). (fst first, count_not_null (map snd (first # others))))
          (group_by (\<lambda>r. subj_id (fst r))
             (filter (\<lambda>r. num_eq (subj_departmentId (fst r)) departmentId)
                (left_join (subjects db) (classes db) (\<lambda>s c. subj_id s = class_subjectId c)))))"

definition department_classesList :: "db \<Rightarrow> jsnum \<Rightarrow> class_with_subject_teacher list" where
  "department_classesList db departmentId =
     order_by_desc (\<lambda>r. class_createdAt (fst r))
       (filter (\<lambda>r. in_department departmentId (fst (snd r))) (classes_joined db))"

definition student_key :: "user_row \<Rightarrow> string \<times> string \<times> string \<times> string option \<times> role" where
  "student_key u = (user_id u, user_name u, user_email u, user_image u, user_role u)"

definition department_enrolledStudents :: "db \<Rightarrow> jsnum \<Rightarrow> student_info list" where
  "department_enrolledStudents db departmentId =
     map (\<lambda>(first, others).
            (case first of (u, e, c, s) \<Rightarrow>
               \<lparr>si_id = user_id u, si_name = user_name u, si_email = user_email u,
                si_image = user_image u, si_role = user_role u\<rparr>))
       (order_by_desc (\<lambda>(first, others). user_createdAt (fst first))
          (group_by (\<lambda>r. student_key (fst r))
             (filter (\<lambda>(u, e, c, s). user_role u = Student \<and> in_department departmentId s)
                (map (\<lambda>(((u, e), c), s). (u, e, c, s))
                   (left_join
                      (left_join
                         (left_join (users db) (enrollments db)
                            (\<lambda>u e. user_id u = enr_studentId e))
                         (classes db)
                         (\<lambda>(u, e) c. case e of None \<Rightarrow> False
                                               | Some e' \<Rightarrow> enr_classId e' = class_id c))
                      (subjects db)
                      (\<lambda>((u, e), c) s. case c of None \<Rightarrow> False
                                               | Some c' \<Rightarrow> class_subjectId c' = subj_id s))))))"

definition get_department_by_id :: "db \<Rightarrow> string \<Rightarrow> department_detail response" where
  "get_department_by_id db idParam =
     (let departmentId = StringToNumber idParam
      in if \<not> isFinite departmentId then Failed 400 ''Invalid department id''
         else
           (case filter (\<lambda>d. num_eq (dept_id d) departmentId) (departments db) of
              [] \<Rightarrow> Failed 404 ''Department not found''
            | department # rest \<Rightarrow>
                let subjectsList = department_subjectsList db departmentId;
                    classesList = department_classesList db departmentId;
                    enrolledStudents = department_enrolledStudents db departmentId
                in Success \<lparr>dd_department = department,
                            dd_subjects = subjectsList,
                            dd_classes = classesList,
                            dd_enrolledStudents = enrolledStudents,
                            dd_totals_subjects = length subjectsList,
                            dd_totals_classes = length classesList,
                            dd_totals_enrolledStudents = length enrolledStudents\<rparr>))"

subsection \<open>The join-result flattener\<close>

text \<open>
  A JavaScript \<open>Map\<close> keeps its entries in insertion order: \<open>set\<close> on a key that is present
  replaces the value where the entry stands, \<open>set\<close> on a new key appends an entry.
  \<open>Array.from(m.values())\<close> is \<open>map snd m\<close> and \<open>m.size\<close> is \<open>length m\<close>.
\<close>

definition map_set :: "'k \<Rightarrow> 'v \<Rightarrow> ('k \<times> 'v) list \<Rightarrow> ('k \<times> 'v) list" where
  "map_set k v m =
     (if k \<in> set (map fst m) then map (\<lambda>(k', v'). if k' = k then (k', v) else (k', v')) m
      else m @ [(k, v)])"

text \<open>
  \<^verbatim>\<open>if (row.child?.id) { childMap.set(row.child.id, row.child); }\<close>
  The test is on the truthiness of the id: a \<open>NULL\<close> child and an id \<open>0\<close> both skip the row.
\<close>

definition set_if_id :: "('c \<Rightarrow> int) \<Rightarrow> 'c option \<Rightarrow> (int \<times> 'c) list \<Rightarrow> (int \<times> 'c) list" where
  "set_if_id key child m =
     (case child of
        None \<Rightarrow> m
      | Some c \<Rightarrow> if key c \<noteq> 0 then map_set (key c) c m else m)"

type_synonym teacher_class = "class_row \<times> subject_row option \<times> department_row option"

type_synonym student_enrollment =
  "enrollment_row \<times> class_row option \<times> subject_row option \<times> department_row option \<times> user_row option"

text \<open>The loop of the teacher branch, filling \<open>subjectMap\<close> and \<open>departmentMap\<close>.\<close>

definition teacher_maps ::
  "teacher_class list \<Rightarrow> (int \<times> subject_row) list \<times> (int \<times> department_row) list" where
  "teacher_maps classesList =
     fold (\<lambda>(c, s, d) (subjectMap, departmentMap).
             (set_if_id subj_id s subjectMap, set_if_id dept_id d departmentMap))
       classesList ([], [])"

text \<open>The loop of the student branch, filling \<open>classMap\<close> and \<open>subjectMap\<close>.\<close>

definition student_maps ::
  "student_enrollment list \<Rightarrow> (int \<times> class_row) list \<times> (int \<times> subject_row) list" where
  "student_maps enrollmentsList =
     fold (\<lambda>(e, c, s, d, t) (classMap, subjectMap).
             (set_if_id class_id c classMap, set_if_id subj_id s subjectMap))
       enrollmentsList ([], [])"

subsection \<open>\<open>GET /api/users/:id\<close>\<close>

text \<open>
  The \<open>data\<close> object of the answer, as the list of its keys with their values in the order
  of the object literal.
\<close>

datatype field =
    FUser user_row
  | FTeacherClasses "teacher_class list"
  | FEnrollments "student_enrollment list"
  | FClasses "class_row list"
  | FSubjects "subject_row list"
  | FDepartments "department_row list"
  | FTotals "(string \<times> nat) list"

type_synonym data_object = "(string \<times> field) list"

definition teacher_classesList :: "db \<Rightarrow> string \<Rightarrow> teacher_class list" where
  "teacher_classesList db userId =
     order_by_desc (\<lambda>r. class_createdAt (fst r))
       (filter (\<lambda>r. class_teacherId (fst r) = userId)
          (map (\<lambda>((c, s), d). (c, s, d))
             (left_join
                (left_join (classes db) (subjects db) (\<lambda>c s. class_subjectId c = subj_id s))
                (departments db)
                (\<lambda>(c, s) d. case s of None \<Rightarrow> False
                                      | Some s' \<Rightarrow> subj_departmentId s' = dept_id d))))"

definition student_enrollmentsList :: "db \<Rightarrow> string \<Rightarrow> student_enrollment list" where
  "student_enrollmentsList db userId =
     order_by_desc (\<lambda>r. enr_createdAt (fst r))
       (filter (\<lambda>r. enr_studentId (fst r) = userId)
          (map (\<lambda>((((e, c), s), d), t). (e, c, s, d, t))
             (left_join
                (left_join
                   (left_join
                      (left_join (enrollments db) (classes db)
                         (\<lambda>e c. enr_classId e = class_id c))
                      (subjects db)
                      (\<lambda>(e, c) s. case c of None \<Rightarrow> False
                                            | Some c' \<Rightarrow> class_subjectId c' = subj_id s))
                   (departments db)
                   (\<lambda>((e, c), s) d. case s of None \<Rightarrow> False
                                             | Some s' \<Rightarrow> subj_departmentId s' = dept_id d))
                (users db)
                (\<lambda>(((e, c), s), d) t. case c of None \<Rightarrow> False
                                               | Some c' \<Rightarrow> class_teacherId c' = user_id t))))"

text \<open>
  \<^verbatim>\<open>const [userDetails] = await db.select(...).from(user).where(eq(user.id, userId));\<close>
  The first row of the answer, \<open>None\<close> for \<open>undefined\<close>.
\<close>

definition select_user :: "db \<Rightarrow> string \<Rightarrow> user_row option" where
  "select_user db userId =
     (case filter (\<lambda>u. user_id u = userId) (users db) of
        [] \<Rightarrow> None
      | userDetails # rest \<Rightarrow> Some userDetails)"

definition get_user_by_id :: "db \<Rightarrow> string \<Rightarrow> data_object response" where
  "get_user_by_id db userId =
     (case select_user db userId of
        None \<Rightarrow> Failed 404 ''User not found''
      | Some userDetails \<Rightarrow>
          if user_role userDetails = Teacher then
            (let classesList = teacher_classesList db userId;
                 (subjectMap, departmentMap) = teacher_maps classesList
             in Success
                  [(''user'', FUser userDetails),
                   (''classes'', FTeacherClasses classesList),
                   (''subjects'', FSubjects (map snd subjectMap)),
                   (''departments'', FDepartments (map snd departmentMap)),
                   (''totals'', FTotals [(''classes'', length classesList),
                                         (''subjects'', length subjectMap),
                                         (''departments'', length departmentMap)])])
          else if user_role userDetails = Student then
            (let enrollmentsList = student_enrollmentsList db userId;
                 (classMap, subjectMap) = student_maps enrollmentsList
             in Success
                  [(''user'', FUser userDetails),
                   (''enrollments'', FEnrollments enrollmentsList),
                   (''classes'', FClasses (map snd classMap)),
                   (''subjects'', FSubjects (map snd subjectMap)),
                   (''totals'', FTotals [(''enrollments'', length enrollmentsList),
                                         (''classes'', length classMap),
                                         (''subjects'', length subjectMap)])])
          else Success [(''user'', FUser userDetails)])"

section \<open>Notions used to state the properties\<close>

text \<open>Whether a handler answered with status 200 and a payload.\<close>

fun succeeded :: "'a response \<Rightarrow> bool" where
  "succeeded (Success payload) = True"
| "succeeded (Failed code msg) = False"

text \<open>The patterns handed to \<open>ILIKE\<close> anywhere in a where clause, left to right.\<close>

fun ilike_patterns :: "cond \<Rightarrow> string list" where
  "ilike_patterns (Ilike col p) = [p]"
| "ilike_patterns (Eq col x) = []"
| "ilike_patterns (Or a b) = ilike_patterns a @ ilike_patterns b"
| "ilike_patterns (And cs) = concat (map ilike_patterns cs)"

definition where_patterns :: "cond option \<Rightarrow> string list" where
  "where_patterns w = (case w of None \<Rightarrow> [] | Some c \<Rightarrow> ilike_patterns c)"

text \<open>
  What the pagination contract asks of a successful list answer \<open>r\<close> for effective page
  \<open>p\<close> and limit \<open>l\<close> over the full, ordered result \<open>rows\<close> of the data query: the metadata
  echo \<open>p\<close> and \<open>l\<close>, \<open>total\<close> is the number of rows, \<open>totalPages\<close> is the ceiling of
  \<open>total / l\<close>, the page is the \<open>l\<close> rows after the first \<open>(p - 1) * l\<close>, it has at most \<open>l\<close>
  rows, and exactly \<open>l\<close> when \<open>p\<close> is a whole page number before the last page.
\<close>

definition counted_page :: "rat \<Rightarrow> rat \<Rightarrow> 'r list \<Rightarrow> 'r list_payload \<Rightarrow> bool" where
  "counted_page p l rows r \<longleftrightarrow>
     1 \<le> p \<and> 1 \<le> l
     \<and> pg_page (pagination r) = Fin p
     \<and> pg_limit (pagination r) = Fin l
     \<and> pg_total (pagination r) = length rows
     \<and> pg_totalPages (pagination r) = Fin (of_int \<lceil>of_nat (length rows) / l\<rceil>)
     \<and> data r = take (nat \<lfloor>l\<rfloor>) (drop (nat \<lfloor>(p - 1) * l\<rfloor>) rows)
     \<and> of_nat (length (data r)) \<le> l
     \<and> (p = of_int \<lfloor>p\<rfloor> \<and> p < of_int \<lceil>of_nat (length rows) / l\<rceil>
          \<longrightarrow> of_nat (length (data r)) = l)"


text \<open>The children of the rows whose left join matched, in row order.\<close>

definition matched :: "'c option list \<Rightarrow> 'c list" where
  "matched children =
     concat (map (\<lambda>child. case child of None \<Rightarrow> [] | Some c \<Rightarrow> [c]) children)"



text \<open>The first right row a left row matches, as a left join on a unique key yields it.\<close>

definition first_match :: "('b \<Rightarrow> bool) \<Rightarrow> 'b list \<Rightarrow> 'b option" where
  "first_match P rs = (case filter P rs of [] \<Rightarrow> None | m # ms \<Rightarrow> Some m)"

text \<open>The subjects of a department, and the classes under those subjects.\<close>

definition subjects_of :: "db \<Rightarrow> int \<Rightarrow> subject_row list" where
  "subjects_of db d = filter (\<lambda>s. subj_departmentId s = d) (subjects db)"

definition classes_under :: "db \<Rightarrow> int \<Rightarrow> class_row list" where
  "classes_under db d =
     filter (\<lambda>c. \<exists>s\<in>set (subjects_of db d). subj_id s = class_subjectId c) (classes db)"

text \<open>The keys of the \<open>data\<close> object of a user detail answer.\<close>

definition data_keys :: "data_object response \<Rightarrow> string list" where
  "data_keys r = (case r of Success d \<Rightarrow> map fst d | Failed code msg \<Rightarrow> [])"

section \<open>An example database\<close>

definition mk_user :: "string \<Rightarrow> string \<Rightarrow> string \<Rightarrow> role \<Rightarrow> int \<Rightarrow> user_row" where
  "mk_user i n e r t =
     \<lparr>user_id = i, user_name = n, user_email = e, user_emailVerified = True,
      user_image = None, user_role = r, user_imageCldPubId = None,
      user_createdAt = t, user_updatedAt = t\<rparr>"

definition mk_department :: "int \<Rightarrow> string \<Rightarrow> string \<Rightarrow> int \<Rightarrow> department_row" where
  "mk_department i c n t =
     \<lparr>dept_id = i, dept_code = c, dept_name = n, dept_description = None, dept_createdAt = t\<rparr>"

definition mk_subject :: "int \<Rightarrow> int \<Rightarrow> string \<Rightarrow> string \<Rightarrow> int \<Rightarrow> subject_row" where
  "mk_subject i d n c t =
     \<lparr>subj_id = i, subj_departmentId = d, subj_name = n, subj_code = c,
      subj_description = None, subj_createdAt = t\<rparr>"

definition mk_class :: "int \<Rightarrow> int \<Rightarrow> string \<Rightarrow> string \<Rightarrow> int \<Rightarrow> class_row" where
  "mk_class i s t n ts =
     \<lparr>class_id = i, class_subjectId = s, class_teacherId = t, class_name = n,
      class_inviteCode = ''k3v9x2a'', class_capacity = 30, class_status = ''active'',
      class_createdAt = ts\<rparr>"

definition mk_enrollment :: "int \<Rightarrow> string \<Rightarrow> int \<Rightarrow> int \<Rightarrow> enrollment_row" where
  "mk_enrollment i s c t =
     \<lparr>enr_id = i, enr_studentId = s, enr_classId = c, enr_createdAt = t\<rparr>"

text \<open>
  One teacher, one student and one admin; the department CS with three subjects and five
  classes under them, the department MA with one subject and one class; the student is
  enrolled in three classes.
\<close>

definition example_db :: db where
  "example_db =
     \<lparr>users = [mk_user ''t1'' ''Ann'' ''ann@school.org'' Teacher 1,
               mk_user ''s1'' ''Bob'' ''bob@school.org'' Student 2,
               mk_user ''a1'' ''Eve'' ''eve@school.org'' Admin 3],
      departments = [mk_department 1 ''CS'' ''Computer Science'' 1,
                     mk_department 2 ''MA'' ''Mathematics'' 2],
      subjects = [mk_subject 1 1 ''Algorithms'' ''CS101'' 1,
                  mk_subject 2 1 ''Databases'' ''CS102'' 2,
                  mk_subject 3 1 ''Networks'' ''CS103'' 3,
                  mk_subject 4 2 ''Algebra'' ''MA101'' 4],
      classes = [mk_class 1 1 ''t1'' ''Algo A'' 1, mk_class 2 1 ''t1'' ''Algo B'' 2,
                 mk_class 3 2 ''t1'' ''DB A'' 3, mk_class 4 2 ''t1'' ''DB B'' 4,
                 mk_class 5 3 ''t1'' ''Net A'' 5, mk_class 6 4 ''t1'' ''Algebra A'' 6],
      enrollments = [mk_enrollment 1 ''s1'' 1 1, mk_enrollment 2 ''s1'' 2 2,
                     mk_enrollment 3 ''s1'' 6 3]\<rparr>"



section \<open>Facts about the building blocks\<close>

subsection \<open>Pagination arithmetic\<close>

lemma row_count_Some: "row_count x = Some n \<Longrightarrow> x = Fin (of_nat n)"
  by (cases x) (auto simp: row_count_def split: if_splits)

lemma js_max_Fin: "js_max (Fin 1) x = Fin a \<Longrightarrow> 1 \<le> a"
  by (cases x) auto

lemma js_max_NaN_or_ge: "js_max (Fin 1) x = NaN \<or> js_le (Fin 1) (js_max (Fin 1) x)"
  by (cases x) auto

lemma currentPage_ge: "currentPage page = Fin p \<Longrightarrow> 1 \<le> p"
  unfolding currentPage_def by (rule js_max_Fin)

lemma limitPerPage_ge: "limitPerPage limit = Fin l \<Longrightarrow> 1 \<le> l"
  unfolding limitPerPage_def by (rule js_max_Fin)

lemma offset_Fin:
  "currentPage page = Fin p \<Longrightarrow> limitPerPage limit = Fin l \<Longrightarrow>
   offset page limit = Fin ((p - 1) * l)"
  by (simp add: offset_def js_sub_def)

lemma totalPages_Fin: "1 \<le> l \<Longrightarrow> totalPages t (Fin l) = Fin (of_int \<lceil>of_nat t / l\<rceil>)"
  by (simp add: totalPages_def)

lemma list_response_Success:
  assumes "list_response msg page limit t rows = Success r"
  obtains n k where
    "limitPerPage limit = Fin (of_nat n)"
    "offset page limit = Fin (of_nat k)"
    "data r = take n (drop k rows)"
    "pagination r = \<lparr>pg_page = currentPage page, pg_limit = limitPerPage limit, pg_total = t,
        pg_totalPages = totalPages t (limitPerPage limit)\<rparr>"
proof -
  from assms obtain pageRows where
    lo: "limit_offset (limitPerPage limit) (offset page limit) rows = Inr pageRows" and
    r: "r = \<lparr>data = pageRows,
             pagination = \<lparr>pg_page = currentPage page, pg_limit = limitPerPage limit,
                            pg_total = t,
                            pg_totalPages = totalPages t (limitPerPage limit)\<rparr>\<rparr>"
    by (auto simp: list_response_def split: sum.splits)
  from lo obtain n k where
    "row_count (limitPerPage limit) = Some n"
    "row_count (offset page limit) = Some k"
    "pageRows = take n (drop k rows)"
    by (auto simp: limit_offset_def split: option.splits)
  with r show thesis using that[of n k] by (simp add: row_count_Some)
qed


lemma page_facts:
  assumes ok: "list_response msg page limit (length rows) rows = Success r"
    and p: "currentPage page = Fin p" and l: "limitPerPage limit = Fin l"
  shows "counted_page p l rows r"
proof -
  from ok obtain n k where
    n: "limitPerPage limit = Fin (of_nat n)" and
    k: "offset page limit = Fin (of_nat k)" and
    d: "data r = take n (drop k rows)" and
    pg: "pagination r = \<lparr>pg_page = currentPage page, pg_limit = limitPerPage limit,
           pg_total = length rows,
           pg_totalPages = totalPages (length rows) (limitPerPage limit)\<rparr>"
    by (rule list_response_Success)
  have p1: "1 \<le> p" using p by (rule currentPage_ge)
  have l1: "1 \<le> l" using l by (rule limitPerPage_ge)
  have ln: "l = of_nat n" using n l by simp
  have "offset page limit = Fin ((p - 1) * l)" using p l by (rule offset_Fin)
  hence kk: "(p - 1) * l = of_nat k" using k by simp
  have len: "length (data r) = min n (length rows - k)" using d by simp
  have full: "of_nat (length (data r)) = l"
    if whole: "p = of_int \<lfloor>p\<rfloor>" and before: "p < of_int \<lceil>of_nat (length rows) / l\<rceil>"
  proof -
    from whole before have "(of_int \<lfloor>p\<rfloor> :: rat) < of_int \<lceil>of_nat (length rows) / l\<rceil>"
      by simp
    hence "\<lfloor>p\<rfloor> < \<lceil>of_nat (length rows) / l\<rceil>" by (simp only: of_int_less_iff)
    hence "of_int \<lfloor>p\<rfloor> < of_nat (length rows) / l" by (simp add: less_ceiling_iff)
    hence "p < of_nat (length rows) / l" using whole by simp
    hence "p * l < of_nat (length rows)" using l1 by (simp add: pos_less_divide_eq)
    hence "(p - 1) * l + l < of_nat (length rows)" by (simp add: algebra_simps)
    hence "(of_nat (k + n) :: rat) < of_nat (length rows)" using kk ln by simp
    hence "k + n < length rows" by (simp only: of_nat_less_iff)
    thus ?thesis using len ln by simp
  qed
  have le: "of_nat (length (data r)) \<le> l" using len ln by simp
  have d': "data r = take (nat \<lfloor>l\<rfloor>) (drop (nat \<lfloor>(p - 1) * l\<rfloor>) rows)"
    using d kk ln by simp
  show ?thesis
    unfolding counted_page_def using p1 l1 pg p l d' le full by (simp add: totalPages_Fin)
qed

subsection \<open>Joins and groups\<close>

lemma fst_set_left_join: "fst ` set (left_join ls rs on) = set ls"
proof -
  have "fst ` set (case filter (on l) rs of
                      [] \<Rightarrow> [(l, None)]
                    | m # ms \<Rightarrow> map (\<lambda>r. (l, Some r)) (m # ms)) = {l}" for l
    by (cases "filter (on l) rs") (auto simp: image_iff)
  thus ?thesis by (induction ls) (simp_all add: left_join_def image_Un)
qed

lemma length_group_by: "length (group_by key xs) = card (key ` set xs)"
proof (induction key xs rule: group_by.induct)
  case (1 key)
  show ?case by simp
next
  case (2 key x xs)
  have "key ` set (x # xs) = insert (key x) (key ` set (filter (\<lambda>y. key y \<noteq> key x) xs))"
    by auto
  moreover have "key x \<notin> key ` set (filter (\<lambda>y. key y \<noteq> key x) xs)" by auto
  ultimately show ?case using 2 by simp
qed

text \<open>
  Grouping a filtered left join by a unique key of the left table gives one group per left
  row that passes the filter, however many right rows each one matched.
\<close>

lemma group_count:
  assumes "distinct (map key ls)"
  shows "length (group_by (\<lambda>r. key (fst r)) (filter (\<lambda>r. P (fst r)) (left_join ls rs on)))
     = length (filter P ls)"
proof -
  have "fst ` set (filter (\<lambda>r. P (fst r)) (left_join ls rs on)) = set (filter P ls)"
    using fst_set_left_join[of ls rs on] by (auto simp: image_iff)
  hence "(\<lambda>r. key (fst r)) ` set (filter (\<lambda>r. P (fst r)) (left_join ls rs on))
      = key ` set (filter P ls)"
    by (metis image_image)
  moreover have "distinct (map key (filter P ls))"
    using assms by (simp add: distinct_map_filter)
  hence "card (key ` set (filter P ls)) = length (filter P ls)"
    using distinct_card[of "map key (filter P ls)"] by (simp del: set_filter)
  ultimately show ?thesis by (simp add: length_group_by del: set_filter)
qed

lemma unique_match:
  "distinct (map f xs) \<Longrightarrow> length (filter (\<lambda>x. k = f x) xs) \<le> 1"
  by (induction xs) (auto simp: filter_empty_conv)

text \<open>A left join on a unique key of the right table keeps the left rows one to one.\<close>

lemma left_join_unique:
  assumes "\<forall>l\<in>set ls. length (filter (on l) rs) \<le> 1"
  shows "left_join ls rs on = map (\<lambda>l. (l, first_match (on l) rs)) ls"
  using assms
proof (induction ls)
  case Nil
  show ?case by (simp add: left_join_def)
next
  case (Cons l ls)
  hence tl: "left_join ls rs on = map (\<lambda>l. (l, first_match (on l) rs)) ls" by simp
  from Cons.prems have "length (filter (on l) rs) \<le> 1" by simp
  hence "(case filter (on l) rs of
            [] \<Rightarrow> [(l, None)]
          | m # ms \<Rightarrow> map (\<lambda>r. (l, Some r)) (m # ms)) = [(l, first_match (on l) rs)]"
    by (cases "filter (on l) rs") (auto simp: first_match_def)
  thus ?case using tl by (simp add: left_join_def)
qed

lemma order_by_desc_sorted: "sorted_wrt (\<lambda>a b. f b \<le> f a) (order_by_desc f xs)"
proof -
  have "sorted (map (\<lambda>r. - f r) (order_by_desc f xs))" by (simp add: order_by_desc_def)
  thus ?thesis by (simp add: sorted_wrt_map sorted_wrt_iff_nth_less)
qed

lemma page_sorted:
  assumes "list_response msg page limit t (order_by_desc f xs) = Success r"
  shows "sorted_wrt (\<lambda>a b. f b \<le> f a) (data r)"
proof -
  from assms obtain n k where "data r = take n (drop k (order_by_desc f xs))"
    by (rule list_response_Success)
  thus ?thesis by (simp add: order_by_desc_sorted sorted_wrt_take sorted_wrt_drop)
qed

subsection \<open>Filters\<close>

lemma push_if_empty: "push_if (Some []) mk fc = push_if None mk fc"
  by (simp add: push_if_def truthy_def)

lemma push_if_None: "push_if None mk fc = fc"
  by (simp add: push_if_def)

lemma whereClause_Nil: "whereClause [] = None"
  by (simp add: whereClause_def)

lemma like_percent: "like ''%'' s"
  by (induction s) auto

lemma like_any_one: "like ''%_%'' s \<longleftrightarrow> s \<noteq> []"
  by (cases s) (auto simp: like_percent)

lemma like_any: "like ''%%%'' s"
  by (induction s) (auto simp: like_percent)

lemma lower_wildcards: "lower CHR ''%'' = CHR ''%''" "lower CHR ''_'' = CHR ''_''"
  by (simp_all add: lower_def)

lemma ilike_underscore: "ilike v (''%'' @ ''_'' @ ''%'') \<longleftrightarrow> v \<noteq> []"
  using like_any_one[of "map lower v"] by (simp add: ilike_def lower_wildcards)

lemma ilike_percent: "ilike v (''%'' @ ''%'' @ ''%'')"
  using like_any[of "map lower v"] by (simp add: ilike_def lower_wildcards)

subsection \<open>Count query against data query\<close>

lemma users_count_eq: "users_countResult db w = length (users_select db w)"
  by (simp add: users_countResult_def users_select_def order_by_desc_def)

lemma subjects_count_eq: "subjects_countResult db w = length (subjects_select db w)"
  by (simp add: subjects_countResult_def subjects_select_def order_by_desc_def)

lemma classes_count_eq: "classes_countResult db w = length (classes_select db w)"
  by (simp add: classes_countResult_def classes_select_def order_by_desc_def)

text \<open>The where clause of the department list reads columns of the departments only.\<close>

lemma departments_where_fst:
  "where_holds (whereClause (departments_filterConditions search)) (department_with_subject_cols r)
    = where_holds (whereClause (departments_filterConditions search)) (department_cols (fst r))"
  by (cases "snd r")
     (simp_all add: departments_filterConditions_def push_if_def truthy_def whereClause_def
        where_holds_def department_with_subject_cols_def nullable_def department_cols_def
        subject_cols_def map_add_def
      split: option.splits)

lemma departments_count_eq:
  assumes "distinct (map dept_id (departments db))"
  shows "departments_countResult db (whereClause (departments_filterConditions search))
     = length (departments_select db (whereClause (departments_filterConditions search)))"
  using group_count[OF assms,
      of "\<lambda>d. where_holds (whereClause (departments_filterConditions search)) (department_cols d)"
         "subjects db" "\<lambda>d s. dept_id d = subj_departmentId s"]
  by (simp add: departments_countResult_def departments_select_def order_by_desc_def
      departments_joined_def departments_where_fst)

section \<open>Properties of the list endpoints\<close>

lemma get_users_page:
  assumes "get_users db search role page limit = Success r"
    and "currentPage page = Fin p" and "limitPerPage limit = Fin l"
  shows "counted_page p l (users_select db (whereClause (users_filterConditions search role))) r"
  using assms page_facts[of _ page limit "users_select db (whereClause (users_filterConditions search role))" r p l]
  by (simp add: get_users_def Let_def users_count_eq)

lemma get_subjects_page:
  assumes "get_subjects db search department page limit = Success r"
    and "currentPage page = Fin p" and "limitPerPage limit = Fin l"
  shows "counted_page p l
     (subjects_select db (whereClause (subjects_filterConditions search department))) r"
  using assms
    page_facts[of _ page limit
      "subjects_select db (whereClause (subjects_filterConditions search department))" r p l]
  by (simp add: get_subjects_def Let_def subjects_count_eq)

lemma get_departments_page:
  assumes "get_departments db search page limit = Success r"
    and "currentPage page = Fin p" and "limitPerPage limit = Fin l"
    and "distinct (map dept_id (departments db))"
  shows "counted_page p l
     (departments_select db (whereClause (departments_filterConditions search))) r"
  using assms
    page_facts[of _ page limit
      "departments_select db (whereClause (departments_filterConditions search))" r p l]
  by (simp add: get_departments_def Let_def departments_count_eq)

lemma get_classes_page:
  assumes "get_classes db search subject teacher page limit = Success r"
    and "currentPage page = Fin p" and "limitPerPage limit = Fin l"
  shows "counted_page p l
     (classes_select db (whereClause (classes_filterConditions search subject teacher))) r"
  using assms
    page_facts[of _ page limit
      "classes_select db (whereClause (classes_filterConditions search subject teacher))" r p l]
  by (simp add: get_classes_def Let_def classes_count_eq)

text \<open>
  Claim C2.  Page and limit are coerced to integers and clamped to a minimum of 1; a
  non-numeric input is not rejected and yields an effective value of at least 1.  The
  handlers compute \<open>Math.max(1, +page)\<close>: on the input \<open>abc\<close> the coercion is \<open>NaN\<close> and so is
  the maximum, which is not at least 1; on \<open>2.5\<close> the effective page is \<open>2.5\<close>, not an
  integer.
\<close>

theorem non_numeric_page_is_NaN:
  "currentPage (Some ''abc'') = NaN
   \<and> limitPerPage (Some ''abc'') = NaN
   \<and> \<not> js_le (Fin 1) (currentPage (Some ''abc''))
   \<and> \<not> js_le (Fin 1) (limitPerPage (Some ''abc''))
   \<and> currentPage (Some ''2.5'') = Fin (5 / 2)"
  by code_simp

text \<open>What the clamp does achieve: the effective value is \<open>NaN\<close> or at least 1.\<close>

lemma clamp_NaN_or_ge:
  "(currentPage page = NaN \<or> js_le (Fin 1) (currentPage page))
   \<and> (limitPerPage limit = NaN \<or> js_le (Fin 1) (limitPerPage limit))"
  by (simp add: currentPage_def limitPerPage_def js_max_NaN_or_ge)



text \<open>
  Claim C6.  For a list answer with effective page \<open>p\<close> and limit \<open>l\<close> (both at least 1):
  \<open>totalPages\<close> is the ceiling of \<open>total / l\<close>, the offset of the data query is
  \<open>(p - 1) * l\<close>, the page has at most \<open>l\<close> rows, and exactly \<open>l\<close> rows on every page before
  the last.  \<open>counted_page\<close> spells this out; "every page before the last" is read for whole
  page numbers \<open>p\<close> below \<open>totalPages\<close>.  For departments the total is the row count of the
  data query when department ids are unique.
\<close>

theorem page_shape:
  assumes "currentPage page = Fin p" and "limitPerPage limit = Fin l"
    and "distinct (map dept_id (departments db))"
  shows
    "offset page limit = Fin ((p - 1) * l)
     \<and> (get_users db search role page limit = Success ru \<longrightarrow>
          counted_page p l
            (users_select db (whereClause (users_filterConditions search role))) ru)
     \<and> (get_subjects db search department page limit = Success rs \<longrightarrow>
          counted_page p l
            (subjects_select db (whereClause (subjects_filterConditions search department))) rs)
     \<and> (get_departments db search page limit = Success rd \<longrightarrow>
          counted_page p l
            (departments_select db (whereClause (departments_filterConditions search))) rd)
     \<and> (get_classes db search subject teacher page limit = Success rc \<longrightarrow>
          counted_page p l
            (classes_select db (whereClause (classes_filterConditions search subject teacher)))
            rc)"
proof (intro conjI impI)
  show "offset page limit = Fin ((p - 1) * l)"
    using assms(1,2) by (rule offset_Fin)
next
  assume "get_users db search role page limit = Success ru"
  thus "counted_page p l
      (users_select db (whereClause (users_filterConditions search role))) ru"
    using assms(1,2) by (rule get_users_page)
next
  assume "get_subjects db search department page limit = Success rs"
  thus "counted_page p l
      (subjects_select db (whereClause (subjects_filterConditions search department))) rs"
    using assms(1,2) by (rule get_subjects_page)
next
  assume "get_departments db search page limit = Success rd"
  thus "counted_page p l
      (departments_select db (whereClause (departments_filterConditions search))) rd"
    using assms by (rule get_departments_page)
next
  assume "get_classes db search subject teacher page limit = Success rc"
  thus "counted_page p l
      (classes_select db (whereClause (classes_filterConditions search subject teacher))) rc"
    using assms(1,2) by (rule get_classes_page)
qed

text \<open>
  On the example database, \<open>GET /api/departments?page=1&limit=1\<close> with two departments:
  one row on the page, two pages, offset 0.
\<close>

theorem page_shape_witness:
  "currentPage (Some ''1'') = Fin 1 \<and> limitPerPage (Some ''1'') = Fin 1
   \<and> distinct (map dept_id (departments example_db))
   \<and> offset (Some ''1'') (Some ''1'') = Fin 0
   \<and> (\<exists>r. get_departments example_db None (Some ''1'') (Some ''1'') = Success r
          \<and> length (data r) = 1
          \<and> pg_total (pagination r) = 2
          \<and> pg_totalPages (pagination r) = Fin 2)"
proof -
  have p: "currentPage (Some ''1'') = Fin 1" by code_simp
  have l: "limitPerPage (Some ''1'') = Fin 1" by code_simp
  have d: "distinct (map dept_id (departments example_db))" by code_simp
  have "succeeded (get_departments example_db None (Some ''1'') (Some ''1''))" by code_simp
  then obtain r where r: "get_departments example_db None (Some ''1'') (Some ''1'') = Success r"
    by (cases "get_departments example_db None (Some ''1'') (Some ''1'')") auto
  have n: "length (departments_select example_db (whereClause (departments_filterConditions None)))
      = 2"
    by code_simp
  note shape = page_shape[OF p l d, where search = None and rd = r]
  have off: "offset (Some ''1'') (Some ''1'') = Fin 0" using shape by simp
  have "counted_page 1 1
      (departments_select example_db (whereClause (departments_filterConditions None))) r"
    using shape r by blast
  hence "length (data r) = 1 \<and> pg_total (pagination r) = 2 \<and> pg_totalPages (pagination r) = Fin 2"
    using n by (simp add: counted_page_def)
  thus ?thesis using p l d off r by (intro conjI exI[where x = r]) simp_all
qed

text \<open>
  Claim C8.  On every list endpoint a request without filter parameters and a request with
  an empty-string search get the same answer, so the same \<open>pagination.total\<close>: an absent or
  empty input pushes no condition, and with no condition the where clause is \<open>undefined\<close>,
  which restricts nothing, so the total is the size of the whole relation.
\<close>

theorem empty_search_is_no_filter:
  "get_users db (Some []) role page limit = get_users db None role page limit
   \<and> get_subjects db (Some []) department page limit = get_subjects db None department page limit
   \<and> get_departments db (Some []) page limit = get_departments db None page limit
   \<and> get_classes db (Some []) subject teacher page limit
       = get_classes db None subject teacher page limit
   \<and> whereClause (users_filterConditions None None) = None
   \<and> whereClause (subjects_filterConditions None None) = None
   \<and> whereClause (departments_filterConditions None) = None
   \<and> whereClause (classes_filterConditions None None None) = None
   \<and> where_holds None env
   \<and> users_countResult db (whereClause (users_filterConditions None None)) = length (users db)
   \<and> subjects_countResult db (whereClause (subjects_filterConditions None None))
       = length (subjects_joined db)
   \<and> departments_countResult db (whereClause (departments_filterConditions None))
       = length (departments db)
   \<and> classes_countResult db (whereClause (classes_filterConditions None None None))
       = length (classes_joined db)"
  by (simp add: get_users_def get_subjects_def get_departments_def get_classes_def
      users_filterConditions_def subjects_filterConditions_def departments_filterConditions_def
      classes_filterConditions_def push_if_empty push_if_None whereClause_Nil where_holds_def
      users_countResult_def subjects_countResult_def departments_countResult_def
      classes_countResult_def)

theorem empty_search_is_no_filter_witness:
  "get_users example_db (Some []) None None None = get_users example_db None None None None
   \<and> users_countResult example_db (whereClause (users_filterConditions None None)) = 3"
proof -
  have n: "length (users example_db) = 3" by code_simp
  note e = empty_search_is_no_filter[where db = example_db and role = None and page = None
      and limit = None and department = None and subject = None and teacher = None
      and env = Map.empty]
  from e have a: "get_users example_db (Some []) None None None
      = get_users example_db None None None None"
    by blast
  from e have "users_countResult example_db (whereClause (users_filterConditions None None))
      = length (users example_db)"
    by blast
  hence b: "users_countResult example_db (whereClause (users_filterConditions None None)) = 3"
    by (simp only: n)
  from a b show ?thesis by (rule conjI)
qed

text \<open>
  Claim C9.  The pattern of every text match is the percent sign, the input as it came, the
  percent sign: the patterns of each where clause are listed for every input, and nothing
  is escaped, so an input \<open>_\<close> matches every non-empty value and an input \<open>%\<close> every value.
\<close>

theorem search_pattern_unescaped:
  "where_patterns (whereClause (users_filterConditions (Some s) role))
     = (if s = [] then [] else [''%'' @ s @ ''%'', ''%'' @ s @ ''%''])
   \<and> where_patterns (whereClause (subjects_filterConditions (Some s) (Some d)))
     = (if s = [] then [] else [''%'' @ s @ ''%'', ''%'' @ s @ ''%''])
       @ (if d = [] then [] else [''%'' @ d @ ''%''])
   \<and> where_patterns (whereClause (departments_filterConditions (Some s)))
     = (if s = [] then [] else [''%'' @ s @ ''%'', ''%'' @ s @ ''%''])
   \<and> where_patterns (whereClause (classes_filterConditions (Some s) (Some d) (Some t)))
     = (if s = [] then [] else [''%'' @ s @ ''%'', ''%'' @ s @ ''%''])
       @ (if d = [] then [] else [''%'' @ d @ ''%''])
       @ (if t = [] then [] else [''%'' @ t @ ''%''])
   \<and> (ilike v (''%'' @ ''_'' @ ''%'') \<longleftrightarrow> v \<noteq> [])
   \<and> ilike v (''%'' @ ''%'' @ ''%'')"
proof -
  have pats:
    "where_patterns (whereClause (users_filterConditions (Some s) role))
       = (if s = [] then [] else [''%'' @ s @ ''%'', ''%'' @ s @ ''%''])"
    "where_patterns (whereClause (subjects_filterConditions (Some s) (Some d)))
       = (if s = [] then [] else [''%'' @ s @ ''%'', ''%'' @ s @ ''%''])
         @ (if d = [] then [] else [''%'' @ d @ ''%''])"
    "where_patterns (whereClause (departments_filterConditions (Some s)))
       = (if s = [] then [] else [''%'' @ s @ ''%'', ''%'' @ s @ ''%''])"
    "where_patterns (whereClause (classes_filterConditions (Some s) (Some d) (Some t)))
       = (if s = [] then [] else [''%'' @ s @ ''%'', ''%'' @ s @ ''%''])
         @ (if d = [] then [] else [''%'' @ d @ ''%''])
         @ (if t = [] then [] else [''%'' @ t @ ''%''])"
    by (auto simp: where_patterns_def whereClause_def users_filterConditions_def
        subjects_filterConditions_def departments_filterConditions_def
        classes_filterConditions_def push_if_def truthy_def contains_pattern_def
        split: option.splits)
  show ?thesis
    using pats ilike_underscore[of v] ilike_percent[of v] by (simp only: simp_thms)
qed

text \<open>
  A search for \<open>a_c\<close> on the users list: the pattern is \<open>%a_c%\<close>, and it matches the name
  \<open>abc\<close>, which has no underscore.
\<close>

theorem search_pattern_unescaped_witness:
  "where_patterns (whereClause (users_filterConditions (Some ''a_c'') None))
     = [''%a_c%'', ''%a_c%'']
   \<and> ilike ''abc'' ''%a_c%''
   \<and> ilike ''x'' ''%_%''"
proof -
  have "ilike ''abc'' ''%a_c%''" by code_simp
  thus ?thesis
    using search_pattern_unescaped[of "''a_c''" None "[]" "[]" "''x''"] by simp
qed

text \<open>
  Claim C10.  Every list endpoint returns its page ordered by the \<open>createdAt\<close> of the
  primary entity, newest first.
\<close>

theorem list_pages_newest_first:
  "(get_users db search role page limit = Success ru \<longrightarrow>
      sorted_wrt (\<lambda>a b. user_createdAt b \<le> user_createdAt a) (data ru))
   \<and> (get_subjects db search department page limit = Success rs \<longrightarrow>
      sorted_wrt (\<lambda>a b. subj_createdAt (fst b) \<le> subj_createdAt (fst a)) (data rs))
   \<and> (get_departments db search page limit = Success rd \<longrightarrow>
      sorted_wrt (\<lambda>a b. dept_createdAt (fst b) \<le> dept_createdAt (fst a)) (data rd))
   \<and> (get_classes db search subject teacher page limit = Success rc \<longrightarrow>
      sorted_wrt (\<lambda>a b. class_createdAt (fst b) \<le> class_createdAt (fst a)) (data rc))"
proof (intro conjI impI)
  assume "get_users db search role page limit = Success ru"
  thus "sorted_wrt (\<lambda>a b. user_createdAt b \<le> user_createdAt a) (data ru)"
    unfolding get_users_def Let_def users_select_def by (rule page_sorted)
next
  assume "get_subjects db search department page limit = Success rs"
  thus "sorted_wrt (\<lambda>a b. subj_createdAt (fst b) \<le> subj_createdAt (fst a)) (data rs)"
    unfolding get_subjects_def Let_def subjects_select_def by (rule page_sorted)
next
  assume "get_departments db search page limit = Success rd"
  thus "sorted_wrt (\<lambda>a b. dept_createdAt (fst b) \<le> dept_createdAt (fst a)) (data rd)"
    unfolding get_departments_def Let_def departments_select_def by (rule page_sorted)
next
  assume "get_classes db search subject teacher page limit = Success rc"
  thus "sorted_wrt (\<lambda>a b. class_createdAt (fst b) \<le> class_createdAt (fst a)) (data rc)"
    unfolding get_classes_def Let_def classes_select_def by (rule page_sorted)
qed

text \<open>
  On the example database the users come back as Eve, Bob, Ann, created at 3, 2 and 1.
\<close>

theorem list_pages_newest_first_witness:
  "\<exists>r. get_users example_db None None None None = Success r
       \<and> map user_createdAt (data r) = [3, 2, 1]
       \<and> sorted_wrt (\<lambda>a b. user_createdAt b \<le> user_createdAt a) (data r)"
proof -
  have "succeeded (get_users example_db None None None None)" by code_simp
  then obtain r where r: "get_users example_db None None None None = Success r"
    by (cases "get_users example_db None None None None") auto
  have "map user_createdAt (data (case get_users example_db None None None None of
      Success x \<Rightarrow> x)) = [3, 2, 1]"
    by code_simp
  hence a: "map user_createdAt (data r) = [3, 2, 1]" using r by simp
  have b: "sorted_wrt (\<lambda>a b. user_createdAt b \<le> user_createdAt a) (data r)"
    using list_pages_newest_first[where db = example_db and search = None and role = None
        and page = None and limit = None and ru = r] r
    by blast
  show ?thesis using r a b by (intro exI[where x = r]) simp
qed

section \<open>Properties of the detail endpoints\<close>

subsection \<open>The key-maps of the flattener\<close>

lemma matched_simps [simp]:
  "matched [] = []"
  "matched (None # xs) = matched xs"
  "matched (Some c # xs) = c # matched xs"
  by (simp_all add: matched_def)





text \<open>An id \<open>0\<close> is falsy: the row is skipped like one whose child is \<open>NULL\<close>.\<close>

lemma set_if_id_zero: "key c = 0 \<Longrightarrow> set_if_id key (Some c) m = m"
  by (simp add: set_if_id_def)



















subsection \<open>Department detail\<close>

lemma num_eq_int [simp]: "num_eq i (Fin (of_int d)) \<longleftrightarrow> i = d"
  by (auto simp: num_eq_def)

lemma subjectsList_length:
  assumes "distinct (map subj_id (subjects db))"
  shows "length (department_subjectsList db (Fin (of_int d))) = length (subjects_of db d)"
  using group_count[OF assms, of "\<lambda>s. subj_departmentId s = d" "classes db"
      "\<lambda>s c. subj_id s = class_subjectId c"]
  by (simp add: department_subjectsList_def order_by_desc_def subjects_of_def)

lemma classes_joined_unique:
  assumes ds: "distinct (map subj_id (subjects db))" and du: "distinct (map user_id (users db))"
  shows "classes_joined db =
     map (\<lambda>c. (c, first_match (\<lambda>s. class_subjectId c = subj_id s) (subjects db),
                  first_match (\<lambda>u. class_teacherId c = user_id u) (users db))) (classes db)"
proof -
  have 1: "left_join (classes db) (subjects db) (\<lambda>c s. class_subjectId c = subj_id s)
      = map (\<lambda>c. (c, first_match (\<lambda>s. class_subjectId c = subj_id s) (subjects db))) (classes db)"
    using unique_match[OF ds] by (intro left_join_unique) blast
  have 2: "left_join xs (users db) (\<lambda>(c, s) u. class_teacherId c = user_id u)
      = map (\<lambda>l. (l, first_match ((\<lambda>(c, s) u. class_teacherId c = user_id u) l) (users db))) xs"
    for xs :: "(class_row \<times> subject_row option) list"
    using unique_match[OF du] by (intro left_join_unique) (simp add: split_def)
  show ?thesis by (simp add: classes_joined_def 1 2 comp_def)
qed

lemma in_department_first_match:
  assumes ds: "distinct (map subj_id (subjects db))"
  shows "in_department (Fin (of_int d))
       (first_match (\<lambda>s. class_subjectId c = subj_id s) (subjects db))
     \<longleftrightarrow> (\<exists>s\<in>set (subjects_of db d). subj_id s = class_subjectId c)"
proof (cases "filter (\<lambda>s. class_subjectId c = subj_id s) (subjects db)")
  case Nil
  hence none: "\<forall>s\<in>set (subjects db). class_subjectId c \<noteq> subj_id s"
    by (simp add: filter_empty_conv)
  have "first_match (\<lambda>s. class_subjectId c = subj_id s) (subjects db) = None"
    using Nil by (simp add: first_match_def)
  moreover have "\<not> (\<exists>s\<in>set (subjects_of db d). subj_id s = class_subjectId c)"
    using none by (auto simp: subjects_of_def)
  ultimately show ?thesis by (simp add: in_department_def)
next
  case (Cons m ms)
  with unique_match[OF ds, of "class_subjectId c"] have ms: "ms = []" by simp
  have fm: "first_match (\<lambda>s. class_subjectId c = subj_id s) (subjects db) = Some m"
    using Cons by (simp add: first_match_def)
  have set: "set (filter (\<lambda>s. class_subjectId c = subj_id s) (subjects db)) = {m}"
    using Cons ms by simp
  hence m: "m \<in> set (subjects db)" "class_subjectId c = subj_id m" by auto
  have only: "s = m" if "s \<in> set (subjects db)" "subj_id s = class_subjectId c" for s
  proof -
    from that have "s \<in> set (filter (\<lambda>s. class_subjectId c = subj_id s) (subjects db))"
      by simp
    thus ?thesis unfolding set by simp
  qed
  have "(\<exists>s\<in>set (subjects_of db d). subj_id s = class_subjectId c)
      \<longleftrightarrow> subj_departmentId m = d"
  proof
    assume "\<exists>s\<in>set (subjects_of db d). subj_id s = class_subjectId c"
    then obtain s where
      s: "s \<in> set (subjects db)" "subj_departmentId s = d" "subj_id s = class_subjectId c"
      by (auto simp: subjects_of_def)
    with only[of s] show "subj_departmentId m = d" by simp
  next
    assume "subj_departmentId m = d"
    with m have "m \<in> set (subjects_of db d)" "subj_id m = class_subjectId c"
      by (simp_all add: subjects_of_def)
    thus "\<exists>s\<in>set (subjects_of db d). subj_id s = class_subjectId c" by blast
  qed
  thus ?thesis using fm by (simp add: in_department_def)
qed

lemma classesList_length:
  assumes ds: "distinct (map subj_id (subjects db))" and du: "distinct (map user_id (users db))"
  shows "length (department_classesList db (Fin (of_int d))) = length (classes_under db d)"
  by (simp add: department_classesList_def order_by_desc_def classes_joined_unique[OF ds du]
      filter_map comp_def in_department_first_match[OF ds] classes_under_def)

lemma department_Success:
  assumes "get_department_by_id db idParam = Success r"
  shows "StringToNumber idParam = Fin (of_int (dept_id (dd_department r)))
    \<and> dd_department r \<in> set (departments db)
    \<and> dd_subjects r = department_subjectsList db (StringToNumber idParam)
    \<and> dd_classes r = department_classesList db (StringToNumber idParam)
    \<and> dd_totals_subjects r = length (dd_subjects r)
    \<and> dd_totals_classes r = length (dd_classes r)"
proof -
  let ?x = "StringToNumber idParam"
  from assms obtain dep rest where
    f: "filter (\<lambda>d. num_eq (dept_id d) ?x) (departments db) = dep # rest"
    and r: "r = \<lparr>dd_department = dep,
                 dd_subjects = department_subjectsList db ?x,
                 dd_classes = department_classesList db ?x,
                 dd_enrolledStudents = department_enrolledStudents db ?x,
                 dd_totals_subjects = length (department_subjectsList db ?x),
                 dd_totals_classes = length (department_classesList db ?x),
                 dd_totals_enrolledStudents = length (department_enrolledStudents db ?x)\<rparr>"
    by (auto simp: get_department_by_id_def Let_def split: if_splits list.splits)
  have "dep \<in> set (filter (\<lambda>d. num_eq (dept_id d) ?x) (departments db))" using f by simp
  hence "dep \<in> set (departments db)" "num_eq (dept_id dep) ?x" by auto
  thus ?thesis using r by (simp add: num_eq_def)
qed

text \<open>
  Claim C5.  For a department with S subjects and C classes under those subjects, the
  answer of \<open>GET /api/departments/:id\<close> has a \<open>subjects\<close> array of length S and a \<open>classes\<close>
  array of length C, and \<open>totals.subjects\<close> and \<open>totals.classes\<close> are these lengths: the
  join of the subjects to their classes is grouped by subject id, and the join of the
  classes to subject and teacher matches one row each.  Subject ids and user ids are
  unique (primary keys).
\<close>

theorem department_detail_counts:
  assumes "distinct (map subj_id (subjects db))" and "distinct (map user_id (users db))"
    and "get_department_by_id db idParam = Success r"
  shows "length (dd_subjects r) = length (subjects_of db (dept_id (dd_department r)))
    \<and> length (dd_classes r) = length (classes_under db (dept_id (dd_department r)))
    \<and> dd_totals_subjects r = length (dd_subjects r)
    \<and> dd_totals_classes r = length (dd_classes r)"
  using department_Success[OF assms(3)] subjectsList_length[OF assms(1)]
    classesList_length[OF assms(1,2)]
  by simp

text \<open>
  The department CS of the example database has three subjects and five classes under
  them; \<open>GET /api/departments/1\<close> answers with three subjects and five classes.
\<close>

theorem department_detail_counts_witness:
  "distinct (map subj_id (subjects example_db))
   \<and> distinct (map user_id (users example_db))
   \<and> length (subjects_of example_db 1) = 3
   \<and> length (classes_under example_db 1) = 5
   \<and> (\<exists>r. get_department_by_id example_db ''1'' = Success r
          \<and> dept_id (dd_department r) = 1
          \<and> length (dd_subjects r) = 3 \<and> length (dd_classes r) = 5
          \<and> dd_totals_subjects r = 3 \<and> dd_totals_classes r = 5)"
proof -
  have ds: "distinct (map subj_id (subjects example_db))" by code_simp
  have du: "distinct (map user_id (users example_db))" by code_simp
  have s: "length (subjects_of example_db 1) = 3" by code_simp
  have c: "length (classes_under example_db 1) = 5" by code_simp
  have "succeeded (get_department_by_id example_db ''1'')" by code_simp
  then obtain r where r: "get_department_by_id example_db ''1'' = Success r"
    by (cases "get_department_by_id example_db ''1''") auto
  have "dept_id (dd_department (case get_department_by_id example_db ''1'' of
      Success x \<Rightarrow> x)) = 1"
    by code_simp
  hence i: "dept_id (dd_department r) = 1" using r by simp
  have "length (dd_subjects r) = 3 \<and> length (dd_classes r) = 5
      \<and> dd_totals_subjects r = 3 \<and> dd_totals_classes r = 5"
    using department_detail_counts[OF ds du r] s c unfolding i by simp
  thus ?thesis using ds du s c r i by (intro conjI exI[where x = r]) simp_all
qed

subsection \<open>Invalid and unknown ids\<close>






text \<open>
  What \<open>Number(id)\<close> takes for a number is wider than a digit string: a blank segment is
  \<open>0\<close> and a fraction is a finite number, so neither is answered with 400.
\<close>

lemma blank_and_fraction_are_numbers:
  "StringToNumber '' '' = Fin 0 \<and> StringToNumber ''1.5'' = Fin (3 / 2)"
  by code_simp



subsection \<open>The keys of a user detail answer\<close>

lemma teacher_keys:
  "select_user db uid = Some u \<Longrightarrow> user_role u = Teacher \<Longrightarrow>
   data_keys (get_user_by_id db uid) = [''user'', ''classes'', ''subjects'', ''departments'', ''totals'']"
  by (simp add: get_user_by_id_def data_keys_def Let_def split: prod.splits)

lemma student_keys:
  "select_user db uid = Some u \<Longrightarrow> user_role u = Student \<Longrightarrow>
   data_keys (get_user_by_id db uid) = [''user'', ''enrollments'', ''classes'', ''subjects'', ''totals'']"
  by (simp add: get_user_by_id_def data_keys_def Let_def split: prod.splits)

lemma admin_keys:
  "select_user db uid = Some u \<Longrightarrow> user_role u = Admin \<Longrightarrow>
   data_keys (get_user_by_id db uid) = [''user'']"
  by (simp add: get_user_by_id_def data_keys_def Let_def split: prod.splits)

text \<open>
  Claim C1.  The \<open>data\<close> object of a user detail answer has no \<open>enrollments\<close> key when the
  user is a teacher, and no top-level \<open>classes\<close> key when the user is a student.

  The second half fails: the student branch puts the distinct classes of the enrollments
  under \<open>classes\<close>.
\<close>

theorem student_answer_has_classes_key:
  "map_option user_role (select_user example_db ''s1'') = Some Student
   \<and> ''classes'' \<in> set (data_keys (get_user_by_id example_db ''s1''))"
  by code_simp

text \<open>
  Claim C1, amended.  The keys of the \<open>data\<close> object are fixed by the role of the fetched
  user: \<open>user\<close>, \<open>classes\<close>, \<open>subjects\<close>, \<open>departments\<close>, \<open>totals\<close> for a teacher, with no
  \<open>enrollments\<close>; \<open>user\<close>, \<open>enrollments\<close>, \<open>classes\<close>, \<open>subjects\<close>, \<open>totals\<close> for a student,
  with \<open>classes\<close> and no \<open>departments\<close>.
\<close>

theorem user_detail_keys_by_role:
  assumes "select_user db userId = Some u"
  shows
    "(user_role u = Teacher \<longrightarrow>
        data_keys (get_user_by_id db userId)
          = [''user'', ''classes'', ''subjects'', ''departments'', ''totals'']
        \<and> ''enrollments'' \<notin> set (data_keys (get_user_by_id db userId)))
     \<and> (user_role u = Student \<longrightarrow>
        data_keys (get_user_by_id db userId)
          = [''user'', ''enrollments'', ''classes'', ''subjects'', ''totals'']
        \<and> ''classes'' \<in> set (data_keys (get_user_by_id db userId))
        \<and> ''departments'' \<notin> set (data_keys (get_user_by_id db userId)))"
  using teacher_keys[OF assms] student_keys[OF assms] by simp

theorem user_detail_keys_by_role_witness:
  "select_user example_db ''t1'' = Some (mk_user ''t1'' ''Ann'' ''ann@school.org'' Teacher 1)
   \<and> data_keys (get_user_by_id example_db ''t1'')
       = [''user'', ''classes'', ''subjects'', ''departments'', ''totals'']
   \<and> select_user example_db ''s1'' = Some (mk_user ''s1'' ''Bob'' ''bob@school.org'' Student 2)
   \<and> data_keys (get_user_by_id example_db ''s1'')
       = [''user'', ''enrollments'', ''classes'', ''subjects'', ''totals'']"
proof -
  have t: "select_user example_db ''t1'' = Some (mk_user ''t1'' ''Ann'' ''ann@school.org'' Teacher 1)"
    by code_simp
  have s: "select_user example_db ''s1'' = Some (mk_user ''s1'' ''Bob'' ''bob@school.org'' Student 2)"
    by code_simp
  have "data_keys (get_user_by_id example_db ''t1'')
      = [''user'', ''classes'', ''subjects'', ''departments'', ''totals'']"
    using user_detail_keys_by_role[OF t] by (simp add: mk_user_def)
  moreover have "data_keys (get_user_by_id example_db ''s1'')
      = [''user'', ''enrollments'', ''classes'', ''subjects'', ''totals'']"
    using user_detail_keys_by_role[OF s] by (simp add: mk_user_def)
  ultimately show ?thesis using t s by simp
qed

end
